theory Spec2Isabelle
  imports Complex_Main
begin

section \<open>Common data\<close>

text \<open>
  The backend is an Express application over Mongoose models. Each route handler is
  embedded as a function from the stored collections, the request and the clock reading
  to a response and the collections after the request. A handler is embedded from its
  express-validator chain on: the JWT middleware (\<open>protect\<close>, \<open>checkPermission\<close>) and
  the activity logger in front of it are not part of the embedding. A request field is
  typed as what its validator admits where that is a format (\<open>isMongoId\<close>,
  \<open>isISO8601\<close>, \<open>isEmail\<close>) or the whole of a schema enumeration; every other
  validator of a chain is a check of the embedded handler.

  A JavaScript \<open>Number\<close> holding an amount or a weight is idealised as an exact
  rational; a \<open>Date\<close> is its millisecond count; an \<open>ObjectId\<close> is a natural number.
  Every \<open>new Date()\<close> and \<open>Date.now()\<close> of one request reads the same instant \<open>now\<close>.
  Mongoose is taken to store a document as the handler built it (schema defaults
  applied, \<open>pre('save')\<close> hook run); its own schema validation is not modelled.
\<close>

type_synonym oid = nat
type_synonym date = int
type_synonym number = rat

datatype user_type = driver | client | admin

datatype shipment_status =
  pending | assigned | picked | packed | processing | in_transit | out_for_delivery
  | delivered | failed | returned | cancelled

fun status_name :: "shipment_status \<Rightarrow> string" where
  "status_name pending = ''pending''"
| "status_name assigned = ''assigned''"
| "status_name picked = ''picked''"
| "status_name packed = ''packed''"
| "status_name processing = ''processing''"
| "status_name in_transit = ''in_transit''"
| "status_name out_for_delivery = ''out_for_delivery''"
| "status_name delivered = ''delivered''"
| "status_name failed = ''failed''"
| "status_name returned = ''returned''"
| "status_name cancelled = ''cancelled''"

text \<open>
  The failure responses of the handlers, named after the error taxonomy of the
  specification. \<open>http_status\<close> and \<open>message\<close> give the status code and the
  \<open>message\<close> field the handler sends for each.
\<close>

datatype error =
  ValidationError string
  | NotFoundError string
  | InvalidTransitionError shipment_status shipment_status
  | InvalidStateError string
  | IneligibleDriverError
  | DuplicatePaymentError
  | InsufficientBalanceError string
  | UnauthenticatedError
  | AccountInactiveError
  | AccountLockedError
  | ServerError string

fun http_status :: "error \<Rightarrow> nat" where
  "http_status (NotFoundError m) = 404"
| "http_status UnauthenticatedError = 401"
| "http_status AccountInactiveError = 401"
| "http_status AccountLockedError = 401"
| "http_status (ServerError m) = 500"
| "http_status e = 400"

fun message :: "error \<Rightarrow> string" where
  "message (ValidationError m) = m"
| "message (NotFoundError m) = m"
| "message (InvalidTransitionError from to) =
     ''Cannot transition from '' @ status_name from @ '' to '' @ status_name to"
| "message (InvalidStateError m) = m"
| "message IneligibleDriverError = ''Driver is not approved or KYC not completed''"
| "message DuplicatePaymentError = ''Payment already exists for this shipment''"
| "message (InsufficientBalanceError m) = m"
| "message UnauthenticatedError = ''Invalid credentials''"
| "message AccountInactiveError = ''Account is not active''"
| "message AccountLockedError =
     ''Account is temporarily locked due to multiple failed login attempts''"
| "message (ServerError m) = m"

text \<open>
  The \<open>trim()\<close> sanitizer of express-validator strips white space from both ends; the
  validators chained after it see the trimmed string.
\<close>

definition is_space :: "char \<Rightarrow> bool" where
  "is_space c = (c \<in> set [CHR '' '', CHR 0x09, CHR 0x0A, CHR 0x0B, CHR 0x0C, CHR 0x0D])"

definition trim :: "string \<Rightarrow> string" where
  "trim s = rev (dropWhile is_space (rev (dropWhile is_space s)))"

definition notEmpty :: "string \<Rightarrow> bool" where
  "notEmpty s = (s \<noteq> [])"

text \<open>\<open>optional().trim().isLength({ max: 500 })\<close> on a free-text field.\<close>

definition valid_text :: "string option \<Rightarrow> bool" where
  "valid_text n = (case n of None \<Rightarrow> True | Some t \<Rightarrow> length (trim t) \<le> 500)"

section \<open>Shipment model (models/Shipment.js)\<close>

record location =
  loc_name :: "string option"
  loc_coordinates :: "(number \<times> number) option"

record item =
  i_name :: string
  i_quantity :: int
  i_weight :: number
  i_value_amount :: "number option"
  i_category :: string
  i_isFragile :: bool

record address =
  street :: string
  city :: string
  state :: string
  zipCode :: string

datatype updated_by = by_system | by_user user_type

record timeline_entry =
  te_status :: shipment_status
  te_timestamp :: date
  te_location :: "location option"
  te_notes :: "string option"
  te_updatedBy :: updated_by
  te_updatedByUser :: "oid option"

record shipment =
  shipmentId :: string
  trackingNumber :: string
  s_client :: oid
  s_driver :: "oid option"
  description :: string
  items :: "item list"
  totalWeight :: number
  totalValue :: number
  pickupAddress :: address
  deliveryAddress :: address
  serviceType :: string
  priority :: string
  s_status :: shipment_status
  s_timeline :: "timeline_entry list"
  requestedPickupDate :: date
  requestedDeliveryDate :: date
  actualPickupDate :: "date option"
  actualDeliveryDate :: "date option"



text \<open>The method \<open>updateStatus(newStatus, location, notes, updatedBy, updatedByUser)\<close>.\<close>

definition updateStatus ::
  "shipment_status \<Rightarrow> location option \<Rightarrow> string option \<Rightarrow> user_type \<Rightarrow> oid \<Rightarrow> date
     \<Rightarrow> shipment \<Rightarrow> shipment" where
  "updateStatus newStatus loc notes updatedBy updatedByUser now s =
     (let s1 = s\<lparr> s_status := newStatus,
                   s_timeline := s_timeline s @
                     [\<lparr> te_status = newStatus, te_timestamp = now, te_location = loc,
                        te_notes = notes, te_updatedBy = by_user updatedBy,
                        te_updatedByUser = Some updatedByUser \<rparr>] \<rparr>
      in if newStatus = picked then s1\<lparr> actualPickupDate := Some now \<rparr>
         else if newStatus = delivered then s1\<lparr> actualDeliveryDate := Some now \<rparr>
         else s1)"


section \<open>Driver and client models (models/Driver.js, models/Client.js)\<close>

datatype driver_status = d_pending | d_approved | d_rejected | d_suspended

datatype kyc_status = k_pending | k_in_review | k_approved | k_rejected

record driver_doc =
  d_firstName :: string
  d_lastName :: string
  d_status :: driver_status
  d_kycStatus :: kyc_status


datatype terms = immediate | net_15 | net_30 | net_45 | net_60

record client_doc =
  companyName :: string
  billing_paymentTerms :: "terms option"

section \<open>Payment model (models/Payment.js)\<close>

datatype payment_status =
  p_pending | p_processing | p_completed | p_failed | p_cancelled | refunded
  | partially_refunded

datatype refund_status = r_pending | r_processing | r_completed | r_failed

datatype refund_reason =
  cancelled_shipment | service_issue | overcharge | duplicate_payment | client_request
  | other_reason

datatype pay_method = credit_card | debit_card | bank_transfer | paypal | cash | check

datatype partial_status = pp_completed | pp_failed

record amount =
  subtotal :: number
  tax :: number
  discount :: number
  total :: number
  currency :: string

record refund =
  refundId :: string
  r_amount :: number
  r_reason :: refund_reason
  r_reasonDescription :: "string option"
  r_refundMethod :: string
  r_status :: refund_status
  r_processedBy :: oid

record partial_payment =
  pp_paymentId :: string
  pp_amount :: number
  pp_paidDate :: date
  pp_method :: pay_method
  pp_transactionId :: "string option"
  pp_status :: partial_status

record payment_entry =
  pe_status :: payment_status
  pe_timestamp :: date
  pe_notes :: "string option"
  pe_amount :: "number option"
  pe_updatedBy :: updated_by
  pe_updatedByUser :: "oid option"

record payment =
  p_id :: oid
  paymentId :: string
  p_transactionId :: "string option"
  p_client :: oid
  p_shipment :: oid
  p_amount :: amount
  p_status :: payment_status
  p_timeline :: "payment_entry list"
  dueDate :: date
  paidDate :: "date option"
  p_terms :: terms
  refunds :: "refund list"
  partialPayments :: "partial_payment list"







section \<open>The stored collections\<close>

text \<open>
  Shipments, drivers and clients are looked up by \<open>_id\<close> only and are maps from
  that key; payments are also searched by the shipment they reference and are the list of
  documents in insertion order.
\<close>

record db =
  shipments :: "oid \<rightharpoonup> shipment"
  drivers :: "oid \<rightharpoonup> driver_doc"
  clients :: "oid \<rightharpoonup> client_doc"
  payments :: "payment list"




section \<open>Shipment routes (routes/shipments.js)\<close>

subsection \<open>POST /api/shipments\<close>












subsection \<open>PUT /api/shipments/:id/status\<close>

record status_request =
  sr_id :: oid
  sr_status :: shipment_status
  sr_notes :: "string option"
  sr_location :: "location option"
  sr_userType :: user_type
  sr_user :: oid

text \<open>The list of \<open>body('status').isIn\<close>: every status but \<open>pending\<close>.\<close>

definition requestable :: "shipment_status list" where
  "requestable =
     [assigned, picked, packed, processing, in_transit, out_for_delivery, delivered, failed,
      returned, cancelled]"

definition valid_status_request :: "status_request \<Rightarrow> bool" where
  "valid_status_request r =
     (sr_status r \<in> set requestable \<and> valid_text (sr_notes r))"

fun validTransitions :: "shipment_status \<Rightarrow> shipment_status list" where
  "validTransitions pending = [assigned, cancelled]"
| "validTransitions assigned = [picked, cancelled]"
| "validTransitions picked = [packed, processing, failed]"
| "validTransitions packed = [processing, in_transit]"
| "validTransitions processing = [in_transit, failed]"
| "validTransitions in_transit = [out_for_delivery, delivered, failed]"
| "validTransitions out_for_delivery = [delivered, failed, returned]"
| "validTransitions delivered = []"
| "validTransitions failed = [processing, cancelled]"
| "validTransitions returned = []"
| "validTransitions cancelled = []"

text \<open>
  \<open>Shipment.findOne(query)\<close>: the document with that \<open>_id\<close>; for a driver the query also
  asks that the shipment's driver is the caller.
\<close>

definition findShipment :: "db \<Rightarrow> status_request \<Rightarrow> shipment option" where
  "findShipment d r =
     (case shipments d (sr_id r) of
        None \<Rightarrow> None
      | Some s \<Rightarrow> if sr_userType r = driver \<and> s_driver s \<noteq> Some (sr_user r) then None
                  else Some s)"

definition update_status_route ::
  "db \<Rightarrow> status_request \<Rightarrow> date \<Rightarrow> (error + shipment) \<times> db" where
  "update_status_route d r now =
     (if \<not> valid_status_request r then (Inl (ValidationError ''Validation errors''), d)
      else case findShipment d r of
        None \<Rightarrow> (Inl (NotFoundError ''Shipment not found or not authorized''), d)
      | Some s \<Rightarrow>
          if sr_status r \<notin> set (validTransitions (s_status s))
          then (Inl (InvalidTransitionError (s_status s) (sr_status r)), d)
          else
            let s' = updateStatus (sr_status r) (sr_location r) (map_option trim (sr_notes r))
                       (sr_userType r) (sr_user r) now s
            in (Inr s', d\<lparr> shipments := (shipments d)(sr_id r \<mapsto> s') \<rparr>))"

subsection \<open>PUT /api/shipments/:id/assign\<close>



subsection \<open>The stores the shipment routes can produce\<close>



section \<open>Payment routes (routes/payments.js)\<close>

subsection \<open>POST /api/payments\<close>





subsection \<open>POST /api/payments/:id/refund\<close>




subsection \<open>POST /api/payments/:id/partial\<close>





section \<open>Admin login (models/Admin.js, routes/auth.js)\<close>

datatype admin_status = a_active | a_inactive | a_suspended | a_terminated

record session =
  sessionId :: string
  deviceInfo :: "string option"
  loginTime :: date
  lastActivity :: date
  isActive :: bool

text \<open>
  \<open>password\<close> stands for the stored bcrypt hash and \<open>comparePassword\<close> for
  \<open>bcrypt.compare\<close>: a candidate matches exactly when it is the password that was hashed.
  \<open>loginAttempts.count\<close> starts at the schema default 0 and is only incremented or reset.
\<close>

record admin_doc =
  a_password :: string
  a_status :: admin_status
  la_count :: nat
  la_lastAttempt :: "date option"
  la_lockedUntil :: "date option"
  lastLogin :: "date option"
  totalLogins :: nat
  activeSessions :: "session list"

definition comparePassword :: "admin_doc \<Rightarrow> string \<Rightarrow> bool" where
  "comparePassword a candidatePassword = (candidatePassword = a_password a)"

text \<open>The virtual \<open>isLocked\<close>.\<close>

definition isLocked :: "admin_doc \<Rightarrow> date \<Rightarrow> bool" where
  "isLocked a now = (case la_lockedUntil a of None \<Rightarrow> False | Some t \<Rightarrow> t > now)"

text \<open>
  The method \<open>handleLoginAttempt(success, deviceInfo)\<close>; \<open>gen_session\<close> is the random
  session identifier. \<open>slice(-5)\<close> keeps the last five sessions.
\<close>

definition handleLoginAttempt ::
  "bool \<Rightarrow> string option \<Rightarrow> string \<Rightarrow> date \<Rightarrow> admin_doc \<Rightarrow> admin_doc" where
  "handleLoginAttempt success dev gen_session now a =
     (if success then
        let a1 = a\<lparr> la_count := 0, la_lockedUntil := None, lastLogin := Some now,
                     totalLogins := totalLogins a + 1,
                     activeSessions := activeSessions a @
                       [\<lparr> sessionId = gen_session, deviceInfo = dev, loginTime = now,
                          lastActivity = now, isActive = True \<rparr>] \<rparr>
        in if length (activeSessions a1) > 5
           then a1\<lparr> activeSessions :=
                      drop (length (activeSessions a1) - 5) (activeSessions a1) \<rparr>
           else a1
      else
        let a1 = a\<lparr> la_count := la_count a + 1, la_lastAttempt := Some now \<rparr>
        in if la_count a1 \<ge> 5
           then a1\<lparr> la_lockedUntil := Some (now + 30 * 60 * 1000) \<rparr>
           else a1)"

text \<open>
  \<open>POST /api/auth/login\<close> with \<open>userType = 'admin'\<close>. Admins are found by their
  (normalised) e-mail address; the \<open>isEmail\<close> validator is not modelled.
\<close>

type_synonym admins = "string \<rightharpoonup> admin_doc"

record login_request =
  lr_email :: string
  lr_password :: string
  lr_userAgent :: "string option"

definition admin_login ::
  "admins \<Rightarrow> login_request \<Rightarrow> string \<Rightarrow> date \<Rightarrow> (error + admin_doc) \<times> admins" where
  "admin_login d r gen_session now =
     (if \<not> notEmpty (lr_password r) then (Inl (ValidationError ''Validation errors''), d)
      else case d (lr_email r) of
        None \<Rightarrow> (Inl UnauthenticatedError, d)
      | Some user \<Rightarrow>
          if \<not> comparePassword user (lr_password r)
          then (Inl UnauthenticatedError,
                d(lr_email r \<mapsto> handleLoginAttempt False None gen_session now user))
          else if a_status user = a_suspended \<or> a_status user = a_inactive
                  \<or> a_status user = a_terminated
          then (Inl AccountInactiveError, d)
          else if isLocked user now then (Inl AccountLockedError, d)
          else
            let user' = handleLoginAttempt True (lr_userAgent r) gen_session now user
            in (Inr user', d(lr_email r \<mapsto> user')))"

text \<open>
  A run of login requests, each with its own session identifier and instant, oldest
  first.
\<close>

fun admin_logins :: "admins \<Rightarrow> (login_request \<times> string \<times> date) list \<Rightarrow> admins" where
  "admin_logins d [] = d"
| "admin_logins d ((r, g, t) # rest) = admin_logins (snd (admin_login d r g t)) rest"



section \<open>Derived notions and concrete data\<close>



text \<open>
  A request of a client, made at instant 0, for pickup a day later and delivery three
  days after that, with one item of quantity 2 and weight 5; and the shipment the
  create route stores for it.
\<close>

definition ex_address :: address where
  "ex_address =
     \<lparr> street = ''1 Main St'', city = ''Nairobi'', state = ''NBO'', zipCode = ''00100'' \<rparr>"

definition ex_item :: item where
  "ex_item =
     \<lparr> i_name = ''Books'', i_quantity = 2, i_weight = 5, i_value_amount = None,
       i_category = ''Documents'', i_isFragile = False \<rparr>"



definition ex_entry :: "shipment_status \<Rightarrow> timeline_entry" where
  "ex_entry st =
     \<lparr> te_status = st, te_timestamp = 0, te_location = None,
       te_notes = Some ''Shipment request created'', te_updatedBy = by_system,
       te_updatedByUser = None \<rparr>"

definition ex_shipment :: "shipment_status \<Rightarrow> shipment" where
  "ex_shipment st =
     \<lparr> shipmentId = ''SH1'', trackingNumber = ''TRK1'', s_client = 7, s_driver = None,
       description = ''Two boxes of books'', items = [ex_item], totalWeight = 10,
       totalValue = 0, pickupAddress = ex_address, deliveryAddress = ex_address,
       serviceType = ''standard'', priority = ''medium'', s_status = st,
       s_timeline = [ex_entry st], requestedPickupDate = 86400000,
       requestedDeliveryDate = 345600000, actualPickupDate = None,
       actualDeliveryDate = None \<rparr>"

text \<open>A store holding that shipment under key 2, in a given status, and two drivers.\<close>

definition ex_driver :: "driver_status \<Rightarrow> driver_doc" where
  "ex_driver st =
     \<lparr> d_firstName = ''Amina'', d_lastName = ''Otieno'', d_status = st,
       d_kycStatus = k_approved \<rparr>"

definition ex_db :: "shipment_status \<Rightarrow> db" where
  "ex_db st =
     \<lparr> shipments = [2 \<mapsto> ex_shipment st],
       drivers = [4 \<mapsto> ex_driver d_approved, 5 \<mapsto> ex_driver d_pending],
       clients = [7 \<mapsto> \<lparr> companyName = ''Acme'', billing_paymentTerms = Some net_15 \<rparr>],
       payments = [] \<rparr>"

definition ex_status_request :: "shipment_status \<Rightarrow> status_request" where
  "ex_status_request to =
     \<lparr> sr_id = 2, sr_status = to, sr_notes = None, sr_location = None,
       sr_userType = admin, sr_user = 9 \<rparr>"









text \<open>
  An admin account with the schema defaults of \<open>loginAttempts\<close>, the same account after
  five failed attempts at the instants 1 to 5, and the requests of that run.
\<close>

definition ex_admin :: "admin_status \<Rightarrow> admin_doc" where
  "ex_admin st =
     \<lparr> a_password = ''secret123'', a_status = st, la_count = 0, la_lastAttempt = None,
       la_lockedUntil = None, lastLogin = None, totalLogins = 0, activeSessions = [] \<rparr>"

definition ex_locked_admin :: "admin_status \<Rightarrow> admin_doc" where
  "ex_locked_admin st =
     (ex_admin st)\<lparr> la_count := 5, la_lastAttempt := Some 5, la_lockedUntil := Some 1800005 \<rparr>"

definition ex_admins :: "admin_status \<Rightarrow> admins" where
  "ex_admins st = [''root@logistics.com'' \<mapsto> ex_admin st]"

definition ex_login :: "string \<Rightarrow> login_request" where
  "ex_login pw = \<lparr> lr_email = ''root@logistics.com'', lr_password = pw, lr_userAgent = None \<rparr>"

definition ex_failed_run :: "(login_request \<times> string \<times> date) list" where
  "ex_failed_run =
     [(ex_login ''guess1'', ''s1'', 1), (ex_login ''guess2'', ''s2'', 2),
      (ex_login ''guess3'', ''s3'', 3), (ex_login ''guess4'', ''s4'', 4),
      (ex_login ''guess5'', ''s5'', 5)]"

text \<open>A failed attempt on the account of \<open>e\<close>: a non-empty password that does not match.\<close>

definition failed_attempt :: "string \<Rightarrow> admin_doc \<Rightarrow> login_request \<Rightarrow> bool" where
  "failed_attempt e a r =
     (lr_email r = e \<and> lr_password r \<noteq> [] \<and> lr_password r \<noteq> a_password a)"

section \<open>Shipment timeline invariant\<close>














section \<open>Shipment state machine\<close>

text \<open>
  Claim C2, as the route has it. For a shipment the route's lookup finds (any caller
  but a driver the shipment is not assigned to) and a request with acceptable notes
  whose pair of current and requested status is not in the table: a requested status
  other than \<open>pending\<close> is answered with the transition error, whose message names the
  current and the requested status; a request for \<open>pending\<close>, which the validator of
  the route does not admit, is answered with the validation error before the table is
  read. Either way the store, and so the shipment's status and timeline, is as before.
\<close>

theorem invalid_transition_rejected:
  assumes "findShipment d r = Some s"
    and "valid_text (sr_notes r)"
    and "sr_status r \<notin> set (validTransitions (s_status s))"
  shows "update_status_route d r now =
           (Inl (if sr_status r = pending then ValidationError ''Validation errors''
                 else InvalidTransitionError (s_status s) (sr_status r)), d)
         \<and> message (InvalidTransitionError (s_status s) (sr_status r)) =
             ''Cannot transition from '' @ status_name (s_status s) @ '' to ''
               @ status_name (sr_status r)
         \<and> shipments (snd (update_status_route d r now)) (sr_id r) = Some s"
proof -
  have found: "shipments d (sr_id r) = Some s"
    using assms(1) by (auto simp: findShipment_def split: option.splits if_splits)
  have v: "valid_status_request r = (sr_status r \<noteq> pending)"
    using assms(2)
    by (cases "sr_status r") (simp_all add: valid_status_request_def requestable_def)
  show ?thesis
    using assms found by (simp add: update_status_route_def v)
qed

theorem invalid_transition_rejected_witness:
  "findShipment (ex_db delivered) (ex_status_request in_transit) = Some (ex_shipment delivered)
   \<and> valid_text (sr_notes (ex_status_request in_transit))
   \<and> in_transit \<notin> set (validTransitions (s_status (ex_shipment delivered)))
   \<and> update_status_route (ex_db delivered) (ex_status_request in_transit) 5 =
       (Inl (InvalidTransitionError delivered in_transit), ex_db delivered)
   \<and> message (InvalidTransitionError delivered in_transit) =
       ''Cannot transition from delivered to in_transit''
   \<and> update_status_route (ex_db delivered) (ex_status_request pending) 5 =
       (Inl (ValidationError ''Validation errors''), ex_db delivered)"
proof -
  have f: "findShipment (ex_db delivered) (ex_status_request to) = Some (ex_shipment delivered)"
    for to
    by (simp add: findShipment_def ex_db_def ex_status_request_def)
  have n: "valid_text (sr_notes (ex_status_request to))" for to
    by (simp add: valid_text_def ex_status_request_def)
  have t: "sr_status (ex_status_request to)
             \<notin> set (validTransitions (s_status (ex_shipment delivered)))" for to
    by (simp add: ex_shipment_def)
  show ?thesis
    using invalid_transition_rejected [OF f n t, of in_transit 5]
      invalid_transition_rejected [OF f n t, of pending 5] f n
    by (simp add: ex_status_request_def ex_shipment_def)
qed

text \<open>
  Claim C2 as stated fails for the requested status \<open>pending\<close>: on a delivered
  shipment the pair (delivered, pending) is not in the table, and the route answers
  with the validation error, not with the transition error.
\<close>

theorem pending_request_counterexample:
  "findShipment (ex_db delivered) (ex_status_request pending) = Some (ex_shipment delivered)
   \<and> s_status (ex_shipment delivered) = delivered
   \<and> pending \<notin> set (validTransitions delivered)
   \<and> fst (update_status_route (ex_db delivered) (ex_status_request pending) 5) =
       Inl (ValidationError ''Validation errors'')
   \<and> fst (update_status_route (ex_db delivered) (ex_status_request pending) 5) \<noteq>
       Inl (InvalidTransitionError delivered pending)"
  by (simp add: update_status_route_def valid_status_request_def requestable_def
        findShipment_def ex_db_def ex_status_request_def ex_shipment_def)

section \<open>Driver assignment\<close>




section \<open>Shipment creation\<close>









section \<open>Refunds\<close>


















section \<open>Partial payments\<close>







section \<open>Payment creation\<close>






section \<open>Admin lockout\<close>

lemma failed_login:
  "d e = Some a \<Longrightarrow> failed_attempt e a r \<Longrightarrow>
     admin_login d r g t = (Inl UnauthenticatedError, d(e \<mapsto> handleLoginAttempt False None g t a))"
  by (simp add: admin_login_def failed_attempt_def notEmpty_def comparePassword_def)

lemma handle_failed_fields:
  "la_count (handleLoginAttempt False dev g t a) = la_count a + 1"
  "a_password (handleLoginAttempt False dev g t a) = a_password a"
  "a_status (handleLoginAttempt False dev g t a) = a_status a"
  "la_lockedUntil (handleLoginAttempt False dev g t a) =
     (if 5 \<le> la_count a + 1 then Some (t + 1800000) else la_lockedUntil a)"
  by (simp_all add: handleLoginAttempt_def Let_def)

lemma handle_success_fields:
  "la_count (handleLoginAttempt True dev g t a) = 0"
  "la_lockedUntil (handleLoginAttempt True dev g t a) = None"
  by (simp_all add: handleLoginAttempt_def Let_def)

lemma failed_logins:
  assumes "d e = Some a" and "\<forall>(r, g, t) \<in> set xs. failed_attempt e a r" and "xs \<noteq> []"
  shows "\<exists>a'. admin_logins d xs e = Some a' \<and> la_count a' = la_count a + length xs
           \<and> a_password a' = a_password a \<and> a_status a' = a_status a
           \<and> (5 \<le> la_count a + length xs \<longrightarrow>
                la_lockedUntil a' = Some (snd (snd (last xs)) + 1800000))"
  using assms
proof (induction xs arbitrary: d a)
  case Nil
  then show ?case by simp
next
  case (Cons x xs)
  obtain r g t where x: "x = (r, g, t)" by (cases x) auto
  let ?a1 = "handleLoginAttempt False None g t a"
  let ?d1 = "d(e \<mapsto> ?a1)"
  from Cons.prems x have fa: "failed_attempt e a r" by simp
  with Cons.prems have step: "admin_login d r g t = (Inl UnauthenticatedError, ?d1)"
    by (simp add: failed_login)
  show ?case
  proof (cases "xs = []")
    case True
    with step x show ?thesis by (simp add: handle_failed_fields)
  next
    case False
    have "\<forall>(r, g, t) \<in> set xs. failed_attempt e ?a1 r"
      using Cons.prems(2) by (auto simp: failed_attempt_def handle_failed_fields)
    moreover have "?d1 e = Some ?a1" by simp
    ultimately obtain a' where
      "admin_logins ?d1 xs e = Some a'" "la_count a' = la_count ?a1 + length xs"
      "a_password a' = a_password ?a1" "a_status a' = a_status ?a1"
      "5 \<le> la_count ?a1 + length xs \<longrightarrow>
         la_lockedUntil a' = Some (snd (snd (last xs)) + 1800000)"
      using Cons.IH [of ?d1 ?a1] False by blast
    with step x False show ?thesis by (simp add: handle_failed_fields)
  qed
qed

lemma login_success_resets:
  "admin_login d r g t = (Inr a', d') \<Longrightarrow>
     la_count a' = 0 \<and> la_lockedUntil a' = None \<and> d' = d(lr_email r \<mapsto> a')"
  by (auto simp: admin_login_def Let_def handle_success_fields
      split: if_splits option.splits)

text \<open>
  Claim C9, as the login route has it. Five failed attempts in a row on an admin
  account (wrong, non-empty passwords) raise the failure counter by five and leave
  \<open>lockedUntil\<close> thirty minutes after the fifth. For an account whose status is
  \<open>active\<close>, an attempt with the correct password is then answered with the locked
  error, the stored account unchanged, at every instant before \<open>lockedUntil\<close>, and from
  that instant on it succeeds. For an account whose status is not \<open>active\<close> the
  correct password is answered with the inactive-account error instead, locked or not,
  because the status is checked before the lock. Every successful login leaves the
  counter at 0 and the lock cleared.
\<close>

theorem lockout_after_five_failures:
  assumes "d e = Some a" and "a_password a \<noteq> []"
    and "length attempts = 5"
    and "\<forall>(r, g, t) \<in> set attempts. failed_attempt e a r"
    and "lr_email ok = e" and "lr_password ok = a_password a"
  shows "\<exists>a5. admin_logins d attempts e = Some a5
          \<and> la_count a5 = la_count a + 5
          \<and> la_lockedUntil a5 = Some (snd (snd (last attempts)) + 30 * 60 * 1000)
          \<and> (a_status a = a_active \<and> now < snd (snd (last attempts)) + 30 * 60 * 1000 \<longrightarrow>
               admin_login (admin_logins d attempts) ok g now =
                 (Inl AccountLockedError, admin_logins d attempts))
          \<and> (a_status a = a_active \<and> snd (snd (last attempts)) + 30 * 60 * 1000 \<le> now \<longrightarrow>
               (\<exists>a'. admin_login (admin_logins d attempts) ok g now =
                        (Inr a', (admin_logins d attempts)(e \<mapsto> a'))
                  \<and> la_count a' = 0 \<and> la_lockedUntil a' = None))
          \<and> (a_status a \<noteq> a_active \<longrightarrow>
               admin_login (admin_logins d attempts) ok g now =
                 (Inl AccountInactiveError, admin_logins d attempts))
          \<and> (\<forall>d1 r1 g1 t1 a1 d2. admin_login d1 r1 g1 t1 = (Inr a1, d2) \<longrightarrow>
               la_count a1 = 0 \<and> la_lockedUntil a1 = None)"
proof -
  from assms(3) have ne: "attempts \<noteq> []" by auto
  from failed_logins [where d = d and e = e and a = a and xs = attempts,
      OF assms(1) assms(4) ne] assms(3)
  obtain a5 where
    a5: "admin_logins d attempts e = Some a5" "la_count a5 = la_count a + 5"
      "a_password a5 = a_password a" "a_status a5 = a_status a"
      "la_lockedUntil a5 = Some (snd (snd (last attempts)) + 1800000)"
    by auto
  have locked: "admin_login (admin_logins d attempts) ok g now =
                 (Inl AccountLockedError, admin_logins d attempts)"
    if "a_status a = a_active" "now < snd (snd (last attempts)) + 30 * 60 * 1000"
    using that a5 assms(2,5,6)
    by (simp add: admin_login_def notEmpty_def comparePassword_def isLocked_def)
  have free: "\<exists>a'. admin_login (admin_logins d attempts) ok g now =
                        (Inr a', (admin_logins d attempts)(e \<mapsto> a'))
                  \<and> la_count a' = 0 \<and> la_lockedUntil a' = None"
    if "a_status a = a_active" "snd (snd (last attempts)) + 30 * 60 * 1000 \<le> now"
    using that a5 assms(2,5,6)
    by (simp add: admin_login_def notEmpty_def comparePassword_def isLocked_def Let_def
        handle_success_fields)
  have inactive: "admin_login (admin_logins d attempts) ok g now =
                 (Inl AccountInactiveError, admin_logins d attempts)"
    if "a_status a \<noteq> a_active"
    using that a5 assms(2,5,6)
    by (cases "a_status a")
       (simp_all add: admin_login_def notEmpty_def comparePassword_def)
  have reset: "la_count a1 = 0 \<and> la_lockedUntil a1 = None"
    if "admin_login d1 r1 g1 t1 = (Inr a1, d2)" for d1 r1 g1 t1 a1 d2
    using login_success_resets [OF that] by simp
  from a5 locked free inactive reset show ?thesis by auto
qed

lemma ex_run_result:
  "admin_logins (ex_admins st) ex_failed_run = [''root@logistics.com'' \<mapsto> ex_locked_admin st]"
  by (simp add: ex_admins_def ex_failed_run_def admin_login_def ex_login_def notEmpty_def
      comparePassword_def ex_admin_def handleLoginAttempt_def Let_def ex_locked_admin_def
      eval_nat_numeral)

theorem lockout_after_five_failures_witness:
  "admin_logins (ex_admins a_active) ex_failed_run ''root@logistics.com'' =
     Some (ex_locked_admin a_active)
   \<and> la_lockedUntil (ex_locked_admin a_active) = Some 1800005
   \<and> admin_login (admin_logins (ex_admins a_active) ex_failed_run) (ex_login ''secret123'')
        ''s6'' 1800004 =
       (Inl AccountLockedError, admin_logins (ex_admins a_active) ex_failed_run)
   \<and> (\<exists>a'. admin_login (admin_logins (ex_admins a_active) ex_failed_run)
              (ex_login ''secret123'') ''s6'' 1800005 =
            (Inr a', (admin_logins (ex_admins a_active) ex_failed_run)
                        (''root@logistics.com'' \<mapsto> a'))
          \<and> la_count a' = 0 \<and> la_lockedUntil a' = None)"
proof -
  have h1: "ex_admins a_active ''root@logistics.com'' = Some (ex_admin a_active)"
    by (simp add: ex_admins_def)
  have h2: "a_password (ex_admin a_active) \<noteq> []"
    by (simp add: ex_admin_def)
  have st: "a_status (ex_admin a_active) = a_active"
    by (simp add: ex_admin_def)
  have h3: "length ex_failed_run = 5" by (simp add: ex_failed_run_def)
  have h4: "\<forall>(r, g, t) \<in> set ex_failed_run.
              failed_attempt ''root@logistics.com'' (ex_admin a_active) r"
    by (simp add: ex_failed_run_def failed_attempt_def ex_login_def ex_admin_def)
  have h5: "lr_email (ex_login ''secret123'') = ''root@logistics.com''"
    "lr_password (ex_login ''secret123'') = a_password (ex_admin a_active)"
    by (simp_all add: ex_login_def ex_admin_def)
  have l: "snd (snd (last ex_failed_run)) = 5" by (simp add: ex_failed_run_def)
  have k: "la_lockedUntil (ex_locked_admin a_active) = Some 1800005"
    by (simp add: ex_locked_admin_def)
  show ?thesis
    using lockout_after_five_failures [where d = "ex_admins a_active"
        and e = "''root@logistics.com''" and a = "ex_admin a_active"
        and attempts = ex_failed_run and ok = "ex_login ''secret123''" and now = 1800004
        and g = "''s6''", OF h1 h2 h3 h4 h5]
      lockout_after_five_failures [where d = "ex_admins a_active"
        and e = "''root@logistics.com''" and a = "ex_admin a_active"
        and attempts = ex_failed_run and ok = "ex_login ''secret123''" and now = 1800005
        and g = "''s6''", OF h1 h2 h3 h4 h5]
    by (simp add: l k st ex_run_result)
qed

text \<open>
  Claim C9 as stated fails for an admin whose status is not \<open>active\<close>: a suspended
  account is locked by the five failures, and the correct password at instant 6 is
  answered with the inactive-account error, not with the locked error.
\<close>

theorem inactive_admin_counterexample:
  "admin_logins (ex_admins a_suspended) ex_failed_run ''root@logistics.com'' =
     Some (ex_locked_admin a_suspended)
   \<and> isLocked (ex_locked_admin a_suspended) 6
   \<and> comparePassword (ex_locked_admin a_suspended) (lr_password (ex_login ''secret123''))
   \<and> fst (admin_login (admin_logins (ex_admins a_suspended) ex_failed_run)
            (ex_login ''secret123'') ''s6'' 6) = Inl AccountInactiveError
   \<and> fst (admin_login (admin_logins (ex_admins a_suspended) ex_failed_run)
            (ex_login ''secret123'') ''s6'' 6) \<noteq> Inl AccountLockedError"
  by (simp add: ex_run_result)
     (simp add: admin_login_def ex_login_def notEmpty_def comparePassword_def
        ex_locked_admin_def ex_admin_def isLocked_def)






end
